theory Spec2Isabelle
  imports Complex_Main "HOL-Library.Sublist" "HOL-Library.Multiset"
begin

section \<open>Review scheduler (utils/spaced-repetition.ts)\<close>

text \<open>
  A time is a whole number of milliseconds since the epoch, the \<^verbatim>\<open>getTime()\<close> value of a
  \<^verbatim>\<open>Date\<close>; a stored timestamp is whole seconds since the epoch. \<^verbatim>\<open>Math.floor(x / 1000)\<close>
  is \<open>x div 1000\<close>, which rounds towards minus infinity on \<open>int\<close> as \<^verbatim>\<open>Math.floor\<close>
  does. The entries of a settings table are numbers of hours; the type of the entries is
  left open, so that a table of arbitrary numbers and a table of whole hours are both
  tables.
\<close>

datatype RecallStrength = Weak | Medium | Strong

record 'n SpacedRepetitionSettings =
  weakInterval :: 'n
  mediumInterval :: 'n
  strongInterval :: 'n

definition DEFAULT_SETTINGS :: "int SpacedRepetitionSettings" where
  "DEFAULT_SETTINGS = \<lparr>weakInterval = 1, mediumInterval = 24, strongInterval = 72\<rparr>"

text \<open>The property access \<^verbatim>\<open>settings[`${recallStrength}Interval`]\<close>.\<close>

fun intervalOf :: "'n SpacedRepetitionSettings \<Rightarrow> RecallStrength \<Rightarrow> 'n" where
  "intervalOf settings Weak = weakInterval settings"
| "intervalOf settings Medium = mediumInterval settings"
| "intervalOf settings Strong = strongInterval settings"

text \<open>
  The value \<^verbatim>\<open>new Date(t)\<close> holds: the constructor cuts the fraction of a millisecond off \<open>t\<close>,
  towards zero, and a \<open>t\<close> beyond 8640000000000000 milliseconds on either side gives the
  invalid date, whose \<^verbatim>\<open>getTime()\<close> is NaN.
\<close>

datatype Date = ValidDate int | InvalidDate

definition TimeClip :: "rat \<Rightarrow> Date" where
  "TimeClip t =
     (if \<bar>t\<bar> > 8640000000000000 then InvalidDate
      else ValidDate (if 0 \<le> t then \<lfloor>t\<rfloor> else \<lceil>t\<rceil>))"

text \<open>
  \<^verbatim>\<open>calculateNextReview\<close> on a table of arbitrary numbers. The first argument is the clock
  reading that \<^verbatim>\<open>new Date()\<close> takes inside the call. Numbers are rationals: the sum is taken
  exactly, where the host rounds it to a double, and the two agree on whole numbers of
  hours.
\<close>

definition calculateNextReviewDate ::
  "int \<Rightarrow> RecallStrength \<Rightarrow> rat SpacedRepetitionSettings \<Rightarrow> Date" where
  "calculateNextReviewDate now recallStrength settings =
     (let hoursToAdd = intervalOf settings recallStrength
      in TimeClip (of_int now + hoursToAdd * 60 * 60 * 1000))"

text \<open>
  \<^verbatim>\<open>calculateNextReview\<close> on a table of whole hours, as the tools call it with the default
  table: the time value of the returned \<^verbatim>\<open>Date\<close>. It is the value that
  \<open>calculateNextReviewDate\<close> gives on the same table whenever that value lies in the range
  of \<^verbatim>\<open>Date\<close> (lemma \<open>calculateNextReview_refines\<close> below).
\<close>

definition calculateNextReview ::
  "int \<Rightarrow> RecallStrength \<Rightarrow> int SpacedRepetitionSettings \<Rightarrow> int" where
  "calculateNextReview now recallStrength settings =
     (let hoursToAdd = intervalOf settings recallStrength
      in now + hoursToAdd * 60 * 60 * 1000)"

definition numberSettings :: "int SpacedRepetitionSettings \<Rightarrow> rat SpacedRepetitionSettings" where
  "numberSettings settings =
     \<lparr>weakInterval = of_int (weakInterval settings),
      mediumInterval = of_int (mediumInterval settings),
      strongInterval = of_int (strongInterval settings)\<rparr>"

section \<open>The table of study items (db/schema)\<close>

datatype Level = A1 | A2 | B1 | B2 | C1 | C2 | Easy | MediumLevel | Hard

text \<open>
  One row of \<^verbatim>\<open>study_items\<close>. The columns \<^verbatim>\<open>id\<close> and \<^verbatim>\<open>notes\<close> are the fields \<open>itemId\<close>
  and \<open>itemNotes\<close>. Columns without \<^verbatim>\<open>notNull()\<close> may hold NULL and are options.
\<close>

record StudyItem =
  itemId :: string
  userId :: string
  type :: string
  content :: string
  level :: Level
  tags :: "string list option"
  recallStrength :: RecallStrength
  lastReviewed :: "int option"
  nextReview :: int
  itemNotes :: "string option"
  createdAt :: int
  updatedAt :: int

text \<open>
  What a call takes from its surroundings: the identifier that \<^verbatim>\<open>crypto.randomUUID()\<close>
  returns, the successive readings of the wall clock in milliseconds (\<open>dateNow h k\<close> is the
  reading number \<open>k\<close> of the call, counted from 0), the storage engine's own clock
  \<^verbatim>\<open>unixepoch()\<close> in seconds, the error that the call's storage statement raises if it
  raises one, what the driver does with a NaN parameter (raise an error, or bind it as
  NULL), the date parser behind \<^verbatim>\<open>new Date(string).getTime()\<close>, where \<open>None\<close> is NaN, and
  the engine's \<^verbatim>\<open>String.prototype.toLowerCase\<close>, which follows the engine's Unicode tables
  and is left open.
\<close>

record Host =
  uuid :: string
  dateNow :: "nat \<Rightarrow> int"
  unixepoch :: int
  storageError :: "string option"
  bindNaN :: "string option"
  dateParse :: "string \<Rightarrow> int option"
  toLowerCase :: "string \<Rightarrow> string"

section \<open>Storage statements\<close>

text \<open>
  The table is the list of its rows. A statement that raises leaves the table as it was.
  \<^verbatim>\<open>id\<close> is the primary key, so an insert with an identifier already present raises.
\<close>

definition db_insert :: "Host \<Rightarrow> StudyItem \<Rightarrow> StudyItem list \<Rightarrow> string + StudyItem list" where
  "db_insert h row db =
     (case storageError h of
        Some e \<Rightarrow> Inl e
      | None \<Rightarrow>
          if itemId row \<in> set (map itemId db)
          then Inl ''UNIQUE constraint failed: study_items.id''
          else Inr (db @ [row]))"

definition db_update ::
  "Host \<Rightarrow> (StudyItem \<Rightarrow> StudyItem) \<Rightarrow> (StudyItem \<Rightarrow> bool) list \<Rightarrow> StudyItem list
   \<Rightarrow> string + StudyItem list" where
  "db_update h setf conditions db =
     (case storageError h of
        Some e \<Rightarrow> Inl e
      | None \<Rightarrow> Inr (map (\<lambda>r. if list_all (\<lambda>c. c r) conditions then setf r else r) db))"

text \<open>
  \<^verbatim>\<open>ORDER BY\<close> leaves the order of rows with equal keys to the engine; the model takes
  the stable sort, and no theorem below depends on that choice.
\<close>

definition asc :: "(StudyItem \<Rightarrow> int) \<Rightarrow> StudyItem list \<Rightarrow> StudyItem list" where
  "asc col rows = sort_key col rows"

definition desc :: "(StudyItem \<Rightarrow> int) \<Rightarrow> StudyItem list \<Rightarrow> StudyItem list" where
  "desc col rows = sort_key (\<lambda>r. - col r) rows"

definition db_select ::
  "Host \<Rightarrow> (StudyItem \<Rightarrow> bool) list \<Rightarrow> (StudyItem list \<Rightarrow> StudyItem list) \<Rightarrow> StudyItem list
   \<Rightarrow> string + StudyItem list" where
  "db_select h conditions orderBy db =
     (case storageError h of
        Some e \<Rightarrow> Inl e
      | None \<Rightarrow> Inr (orderBy (filter (\<lambda>r. list_all (\<lambda>c. c r) conditions) db)))"

text \<open>
  Binding a number as a statement parameter. NaN (\<open>None\<close>) is refused with an error or
  bound as NULL, as the host's driver decides.
\<close>

definition bindNumber :: "Host \<Rightarrow> int option \<Rightarrow> string + int option" where
  "bindNumber h x =
     (case x of
        Some v \<Rightarrow> Inr (Some v)
      | None \<Rightarrow> (case bindNaN h of Some e \<Rightarrow> Inl e | None \<Rightarrow> Inr None))"

text \<open>\<^verbatim>\<open>lte(column, parameter)\<close>: a comparison with NULL is not true.\<close>

definition lte :: "(StudyItem \<Rightarrow> int) \<Rightarrow> int option \<Rightarrow> StudyItem \<Rightarrow> bool" where
  "lte col p r = (case p of Some v \<Rightarrow> col r \<le> v | None \<Rightarrow> False)"

section \<open>The six tools\<close>

text \<open>
  A reply is the JSON text of the tool result: \<^verbatim>\<open>{id, success: true}\<close> is \<open>Created\<close>,
  \<^verbatim>\<open>{success: true}\<close> is \<open>Success\<close>, \<^verbatim>\<open>{error, success: false}\<close> is \<open>Failure\<close>.
\<close>

record Stats =
  total :: nat
  weak :: nat
  medium :: nat
  strong :: nat
  byLevel :: "(Level \<times> nat) list"
  byType :: "(string \<times> nat) list"
  dueForReview :: nat
  reviewedToday :: nat

datatype Response =
    Created string
  | Success
  | Items "StudyItem list"
  | Types "string list"
  | Statistics Stats
  | Failure string

subsection \<open>create_study_item\<close>

text \<open>
  The inserted row: the values the tool passes, and the schema's defaults for the
  columns it does not pass (\<^verbatim>\<open>recall_strength\<close> defaults to \<^verbatim>\<open>'weak'\<close>, \<^verbatim>\<open>last_reviewed\<close>
  to NULL, \<^verbatim>\<open>created_at\<close> and \<^verbatim>\<open>updated_at\<close> to \<^verbatim>\<open>unixepoch()\<close>).
\<close>

definition insertValues ::
  "Host \<Rightarrow> string \<Rightarrow> string \<Rightarrow> string \<Rightarrow> string \<Rightarrow> Level \<Rightarrow> string list \<Rightarrow> int
   \<Rightarrow> string option \<Rightarrow> StudyItem" where
  "insertValues h i uid ty c l tgs nxt nts =
     \<lparr>itemId = i, userId = uid, type = ty, content = c, level = l, tags = Some tgs,
      recallStrength = Weak, lastReviewed = None, nextReview = nxt, itemNotes = nts,
      createdAt = unixepoch h, updatedAt = unixepoch h\<rparr>"

definition create_study_item ::
  "Host \<Rightarrow> string \<Rightarrow> string \<Rightarrow> string \<Rightarrow> Level \<Rightarrow> string list option \<Rightarrow> string option
   \<Rightarrow> StudyItem list \<Rightarrow> Response \<times> StudyItem list" where
  "create_study_item h uid ty c l tagsArg nts db =
     (let tgs = (case tagsArg of None \<Rightarrow> [] | Some t \<Rightarrow> t);
          i = uuid h;
          nextReviewDate = calculateNextReview (dateNow h 0) Weak DEFAULT_SETTINGS
      in case db_insert h (insertValues h i uid ty c l tgs (nextReviewDate div 1000) nts) db of
           Inr db' \<Rightarrow> (Created i, db')
         | Inl e \<Rightarrow> (Failure e, db))"

subsection \<open>update_study_performance\<close>

text \<open>
  The body reads the clock three times: in the scheduler, for \<^verbatim>\<open>now\<close>, for \<^verbatim>\<open>nowDate\<close>.
  The column \<^verbatim>\<open>updated_at\<close> has the mode \<^verbatim>\<open>timestamp\<close>, which stores a \<^verbatim>\<open>Date\<close> as its
  whole seconds.
\<close>

definition update_study_performance ::
  "Host \<Rightarrow> string \<Rightarrow> string \<Rightarrow> RecallStrength \<Rightarrow> StudyItem list \<Rightarrow> Response \<times> StudyItem list" where
  "update_study_performance h i uid rs db =
     (let nextReviewDate = calculateNextReview (dateNow h 0) rs DEFAULT_SETTINGS;
          now = dateNow h 1 div 1000;
          nowDate = dateNow h 2
      in case db_update h
                (\<lambda>r. r\<lparr>recallStrength := rs, lastReviewed := Some now,
                        nextReview := nextReviewDate div 1000, updatedAt := nowDate div 1000\<rparr>)
                [\<lambda>r. itemId r = i, \<lambda>r. userId r = uid] db of
           Inr db' \<Rightarrow> (Success, db')
         | Inl e \<Rightarrow> (Failure e, db))"

subsection \<open>search_study_items\<close>

text \<open>
  A text is the list of the bytes of its UTF-8 form, in which the table stores it.
  \<^verbatim>\<open>haystack.includes(needle)\<close> compares code units; on well-formed text, one text occurs
  in another by code units exactly when its bytes occur in the other's bytes.
  \<open>toLowerCase h\<close> is the host's \<^verbatim>\<open>toLowerCase\<close> on texts.
\<close>

fun str_includes :: "string \<Rightarrow> string \<Rightarrow> bool" where
  "str_includes [] needle = (needle = [])"
| "str_includes (c # cs) needle = (prefix needle (c # cs) \<or> str_includes cs needle)"

text \<open>\<^verbatim>\<open>tags.some(tag => item.tags?.includes(tag) || false)\<close>\<close>

definition someTagMatches :: "string list \<Rightarrow> StudyItem \<Rightarrow> bool" where
  "someTagMatches tgs item =
     list_ex (\<lambda>tag. case tags item of None \<Rightarrow> False | Some its \<Rightarrow> tag \<in> set its) tgs"

definition search_study_items ::
  "Host \<Rightarrow> string \<Rightarrow> string option \<Rightarrow> string list option \<Rightarrow> string option \<Rightarrow> Level option
   \<Rightarrow> StudyItem list \<Rightarrow> Response" where
  "search_study_items h uid contentArg tagsArg typeArg levelArg db =
     (let conditions =
            [\<lambda>r. userId r = uid]
            @ (case typeArg of
                 Some ty \<Rightarrow> if ty \<noteq> [] then [\<lambda>r. type r = ty] else []
               | None \<Rightarrow> [])
            @ (case levelArg of Some l \<Rightarrow> [\<lambda>r. level r = l] | None \<Rightarrow> [])
      in case db_select h conditions (desc updatedAt) db of
           Inl e \<Rightarrow> Failure e
         | Inr results \<Rightarrow>
             (let filtered1 =
                    (case contentArg of
                       Some c \<Rightarrow>
                         if c \<noteq> []
                         then filter (\<lambda>item. str_includes (toLowerCase h (content item))
                                          (toLowerCase h c))
                                results
                         else results
                     | None \<Rightarrow> results);
                  filtered2 =
                    (case tagsArg of
                       Some tgs \<Rightarrow>
                         if length tgs > 0 then filter (someTagMatches tgs) filtered1
                         else filtered1
                     | None \<Rightarrow> filtered1)
              in Items filtered2))"

subsection \<open>get_items_for_review\<close>

text \<open>
  \<^verbatim>\<open>dueBefore ? ... : now\<close> takes the else branch for an absent and for an empty string.
  A string that does not parse gives NaN, and \<^verbatim>\<open>Math.floor\<close> keeps NaN.
\<close>

definition get_items_for_review ::
  "Host \<Rightarrow> string \<Rightarrow> RecallStrength option \<Rightarrow> string option \<Rightarrow> StudyItem list \<Rightarrow> Response" where
  "get_items_for_review h uid rsArg dueBefore db =
     (let now = dateNow h 0 div 1000;
          dueBeforeTimestamp =
            (case dueBefore of
               Some d \<Rightarrow>
                 if d \<noteq> [] then map_option (\<lambda>ms. ms div 1000) (dateParse h d) else Some now
             | None \<Rightarrow> Some now)
      in case bindNumber h dueBeforeTimestamp of
           Inl e \<Rightarrow> Failure e
         | Inr p \<Rightarrow>
             (let conditions =
                    [\<lambda>r. userId r = uid, lte nextReview p]
                    @ (case rsArg of Some s \<Rightarrow> [\<lambda>r. recallStrength r = s] | None \<Rightarrow> [])
              in case db_select h conditions (asc nextReview) db of
                   Inl e \<Rightarrow> Failure e
                 | Inr results \<Rightarrow> Items results))"

subsection \<open>get_study_types\<close>

text \<open>
  \<^verbatim>\<open>SELECT DISTINCT\<close> returns the types in the order of the engine's scan; the model takes
  the order of the table, and nothing below is stated about that order.
\<close>

definition get_study_types :: "Host \<Rightarrow> string \<Rightarrow> StudyItem list \<Rightarrow> Response" where
  "get_study_types h uid db =
     (case db_select h [\<lambda>r. userId r = uid] (\<lambda>rows. rows) db of
        Inl e \<Rightarrow> Failure e
      | Inr results \<Rightarrow> Types (remdups (map type results)))"

subsection \<open>get_learning_stats\<close>

text \<open>
  \<^verbatim>\<open>counts[key] = (counts[key] || 0) + 1\<close> on an object used as a dictionary: the
  association list of its keys in the order of their first occurrence. The order in
  which the object lists keys that look like integers, and keys that name a property of
  \<^verbatim>\<open>Object.prototype\<close>, are not modelled; nothing below is stated about the counts per key.
\<close>

fun increment :: "('k \<times> nat) list \<Rightarrow> 'k \<Rightarrow> ('k \<times> nat) list" where
  "increment [] k = [(k, 1)]"
| "increment ((k', n) # rest) k =
     (if k' = k then (k', n + 1) # rest else (k', n) # increment rest k)"

text \<open>\<^verbatim>\<open>item.lastReviewed && item.lastReviewed >= now - 86400\<close>: NULL and 0 are falsy.\<close>

definition reviewedSince :: "int \<Rightarrow> StudyItem \<Rightarrow> bool" where
  "reviewedSince now item =
     (case lastReviewed item of None \<Rightarrow> False | Some t \<Rightarrow> t \<noteq> 0 \<and> t \<ge> now - 86400)"

definition get_learning_stats :: "Host \<Rightarrow> string \<Rightarrow> StudyItem list \<Rightarrow> Response" where
  "get_learning_stats h uid db =
     (case db_select h [\<lambda>r. userId r = uid] (\<lambda>rows. rows) db of
        Inl e \<Rightarrow> Failure e
      | Inr allItems \<Rightarrow>
          (let now = dateNow h 0 div 1000
           in Statistics
                \<lparr>total = length allItems,
                 weak = length (filter (\<lambda>item. recallStrength item = Weak) allItems),
                 medium = length (filter (\<lambda>item. recallStrength item = Medium) allItems),
                 strong = length (filter (\<lambda>item. recallStrength item = Strong) allItems),
                 byLevel = foldl (\<lambda>m item. increment m (level item)) [] allItems,
                 byType = foldl (\<lambda>m item. increment m (type item)) [] allItems,
                 dueForReview = length (filter (\<lambda>item. nextReview item \<le> now) allItems),
                 reviewedToday = length (filter (reviewedSince now) allItems)\<rparr>))"

section \<open>Rows by owner, and a small table to run the tools on\<close>

definition ownRows :: "string \<Rightarrow> StudyItem list \<Rightarrow> StudyItem list" where
  "ownRows uid db = filter (\<lambda>r. userId r = uid) db"

definition otherRows :: "string \<Rightarrow> StudyItem list \<Rightarrow> StudyItem list" where
  "otherRows uid db = filter (\<lambda>r. userId r \<noteq> uid) db"

text \<open>
  The lower-casing of the demonstration host: the engine's \<^verbatim>\<open>toLowerCase\<close> on texts whose
  letters are Basic Latin or Latin-1 Supplement letters. It lowers A to Z, and the
  two-byte forms of U+00C0 to U+00DE other than the multiplication sign U+00D7.
\<close>

fun lowerLatin :: "string \<Rightarrow> string" where
  "lowerLatin [] = []"
| "lowerLatin [c] =
     [if 65 \<le> (of_char c :: nat) \<and> (of_char c :: nat) \<le> 90
      then char_of ((of_char c :: nat) + 32) else c]"
| "lowerLatin (c # d # cs) =
     (if (of_char c :: nat) = 195 \<and> 128 \<le> (of_char d :: nat) \<and> (of_char d :: nat) \<le> 158
         \<and> (of_char d :: nat) \<noteq> 151
      then c # char_of ((of_char d :: nat) + 32) # lowerLatin cs
      else (if 65 \<le> (of_char c :: nat) \<and> (of_char c :: nat) \<le> 90
            then char_of ((of_char c :: nat) + 32) else c) # lowerLatin (d # cs))"

text \<open>
  A host whose clock stands in second 5000 during the call, whose storage raises nothing,
  and whose date parser knows one ISO string.
\<close>

definition demoHost :: Host where
  "demoHost =
     \<lparr>uuid = ''id-5'', dateNow = (\<lambda>k. 5000000 + int k), unixepoch = 5000,
      storageError = None, bindNaN = None,
      dateParse = (\<lambda>s. if s = ''1970-01-01T01:23:20.000Z'' then Some 5000000 else None),
      toLowerCase = lowerLatin\<rparr>"

text \<open>A row whose content begins with U+00C4, the bytes C3 84.\<close>

definition itemA4 :: StudyItem where
  "itemA4 =
     \<lparr>itemId = ''id-6'', userId = ''alice'', type = ''vocab'',
      content = CHR 0xC3 # CHR 0x84 # ''PFEL'',
      level = B2, tags = Some [], recallStrength = Weak, lastReviewed = None,
      nextReview = 9000, itemNotes = None, createdAt = 1800, updatedAt = 1800\<rparr>"

definition itemA1 :: StudyItem where
  "itemA1 =
     \<lparr>itemId = ''id-1'', userId = ''alice'', type = ''vocab'', content = ''Der Hund'',
      level = A1, tags = Some [''x'', ''y''], recallStrength = Weak, lastReviewed = None,
      nextReview = 5000, itemNotes = None, createdAt = 1400, updatedAt = 1400\<rparr>"

definition itemA2 :: StudyItem where
  "itemA2 =
     \<lparr>itemId = ''id-2'', userId = ''alice'', type = ''grammar'', content = ''Dativ'',
      level = B1, tags = Some [''y'', ''z''], recallStrength = Medium,
      lastReviewed = Some 1500, nextReview = 5001, itemNotes = Some ''case'',
      createdAt = 1300, updatedAt = 1500\<rparr>"

definition itemA3 :: StudyItem where
  "itemA3 =
     \<lparr>itemId = ''id-3'', userId = ''alice'', type = ''vocab'', content = ''HUNDert'',
      level = A2, tags = None, recallStrength = Strong, lastReviewed = Some 1600,
      nextReview = 4000, itemNotes = None, createdAt = 1200, updatedAt = 1600\<rparr>"

definition itemB1 :: StudyItem where
  "itemB1 =
     \<lparr>itemId = ''id-4'', userId = ''bob'', type = ''vocab'', content = ''Die Katze'',
      level = Easy, tags = Some [''x''], recallStrength = Weak, lastReviewed = None,
      nextReview = 100, itemNotes = None, createdAt = 90, updatedAt = 1700\<rparr>"

definition demoDb :: "StudyItem list" where
  "demoDb = [itemA1, itemA2, itemA3, itemB1]"

section \<open>Properties of the scheduler\<close>

lemma TimeClip_of_int:
  assumes "\<bar>k\<bar> \<le> 8640000000000000"
  shows "TimeClip (of_int k) = ValidDate k"
proof -
  from assms have "\<bar>(of_int k :: rat)\<bar> \<le> of_int 8640000000000000"
    unfolding of_int_abs [symmetric] of_int_le_iff .
  then show ?thesis
    by (simp add: TimeClip_def)
qed

lemma calculateNextReviewDate_whole_hours:
  assumes "intervalOf settings s = of_int hours"
    and "\<bar>now + hours * 3600000\<bar> \<le> 8640000000000000"
  shows "calculateNextReviewDate now s settings = ValidDate (now + hours * 3600000)"
proof -
  have "of_int now + intervalOf settings s * 60 * 60 * 1000
          = (of_int (now + hours * 3600000) :: rat)"
    by (simp add: assms(1))
  then have "calculateNextReviewDate now s settings = TimeClip (of_int (now + hours * 3600000))"
    by (simp add: calculateNextReviewDate_def Let_def mult.commute)
  then show ?thesis
    using TimeClip_of_int [OF assms(2)] by simp
qed

lemma calculateNextReview_refines:
  assumes "\<bar>calculateNextReview now s settings\<bar> \<le> 8640000000000000"
  shows "calculateNextReviewDate now s (numberSettings settings)
         = ValidDate (calculateNextReview now s settings)"
proof -
  have i: "intervalOf (numberSettings settings) s = of_int (intervalOf settings s)"
    by (cases s) (simp_all add: numberSettings_def)
  have r: "\<bar>now + intervalOf settings s * 3600000\<bar> \<le> 8640000000000000"
    using assms by (simp add: calculateNextReview_def)
  from calculateNextReviewDate_whole_hours [OF i r] show ?thesis
    by (simp add: calculateNextReview_def)
qed




text \<open>
  Claim C9. With the default settings and one clock reading for the three calls, the
  result for weak lies strictly before the result for medium, which lies strictly before
  the result for strong.
\<close>

theorem calculateNextReview_monotone_default:
  "calculateNextReview now Weak DEFAULT_SETTINGS < calculateNextReview now Medium DEFAULT_SETTINGS
   \<and> calculateNextReview now Medium DEFAULT_SETTINGS
       < calculateNextReview now Strong DEFAULT_SETTINGS"
  by (simp add: calculateNextReview_def DEFAULT_SETTINGS_def)

section \<open>Auxiliary facts\<close>

lemmas demo_defs = demoHost_def demoDb_def itemA1_def itemA2_def itemA3_def itemB1_def

lemma floor_seconds_after_hours:
  "(now + hrs * 60 * 60 * 1000) div 1000 = now div 1000 + hrs * 3600" for now hrs :: int
proof -
  have "now + hrs * 60 * 60 * 1000 = now + (hrs * 3600) * 1000" by simp
  also have "\<dots> div 1000 = now div 1000 + hrs * 3600" by simp
  finally show ?thesis .
qed

lemma nextReview_seconds:
  "calculateNextReview now rs DEFAULT_SETTINGS div 1000
     = now div 1000 + (case rs of Weak \<Rightarrow> 3600 | Medium \<Rightarrow> 86400 | Strong \<Rightarrow> 259200)"
proof -
  have "calculateNextReview now rs DEFAULT_SETTINGS div 1000
          = now div 1000 + intervalOf DEFAULT_SETTINGS rs * 3600"
    unfolding calculateNextReview_def Let_def by (rule floor_seconds_after_hours)
  then show ?thesis
    by (cases rs) (simp_all add: DEFAULT_SETTINGS_def)
qed

subsection \<open>The in-memory filters of the search\<close>

lemma str_includes_sublist: "str_includes hay needle = sublist needle hay"
proof (induction hay)
  case Nil
  show ?case by simp
next
  case (Cons c cs)
  show ?case
  proof (cases needle)
    case Nil
    then show ?thesis by simp
  next
    case (Cons n ns)
    then show ?thesis using Cons.IH by (simp add: sublist_code)
  qed
qed

lemma someTagMatches_inter:
  "someTagMatches tgs item
   = (case tags item of None \<Rightarrow> False | Some its \<Rightarrow> set tgs \<inter> set its \<noteq> {})"
  by (auto simp: someTagMatches_def list_ex_iff split: option.splits)

lemma content_filter_step:
  assumes "toLowerCase h [] = []"
  shows "(case contentArg of
      Some c \<Rightarrow>
        if c \<noteq> []
        then filter (\<lambda>item. str_includes (toLowerCase h (content item)) (toLowerCase h c))
               results
        else results
    | None \<Rightarrow> results)
   = filter (\<lambda>r. case contentArg of None \<Rightarrow> True
                 | Some c \<Rightarrow> sublist (toLowerCase h c) (toLowerCase h (content r))) results"
  by (cases contentArg) (simp_all add: str_includes_sublist assms)

lemma tags_filter_step:
  "(case tagsArg of
      Some tgs \<Rightarrow> if length tgs > 0 then filter (someTagMatches tgs) rows else rows
    | None \<Rightarrow> rows)
   = filter (\<lambda>r. case tagsArg of None \<Rightarrow> True
                 | Some tgs \<Rightarrow> tgs = [] \<or> (case tags r of None \<Rightarrow> False
                                               | Some its \<Rightarrow> set tgs \<inter> set its \<noteq> {})) rows"
proof (cases tagsArg)
  case None
  then show ?thesis by simp
next
  case (Some tgs)
  then show ?thesis
    by (cases "tgs = []") (simp_all add: someTagMatches_inter cong: filter_cong)
qed

lemma storage_conditions_step:
  "list_all (\<lambda>c. c r)
     ([\<lambda>r. userId r = uid]
      @ (case typeArg of Some ty \<Rightarrow> if ty \<noteq> [] then [\<lambda>r. type r = ty] else [] | None \<Rightarrow> [])
      @ (case levelArg of Some l \<Rightarrow> [\<lambda>r. level r = l] | None \<Rightarrow> []))
   = (userId r = uid
      \<and> (case typeArg of None \<Rightarrow> True | Some ty \<Rightarrow> ty = [] \<or> type r = ty)
      \<and> (case levelArg of None \<Rightarrow> True | Some l \<Rightarrow> level r = l))"
  by (auto split: option.splits)

lemma strength_condition_step:
  "list_all (\<lambda>c. c r) (case rsArg of Some s \<Rightarrow> [\<lambda>r. recallStrength r = s] | None \<Rightarrow> [])
   = (case rsArg of None \<Rightarrow> True | Some s \<Rightarrow> recallStrength r = s)"
  by (simp split: option.splits)

subsection \<open>Ordering\<close>

lemma desc_sorted: "sorted_wrt (\<lambda>a b. col b \<le> col a) (desc col rows)"
proof -
  have "sorted (map (\<lambda>r. - col r) (sort_key (\<lambda>r. - col r) rows))"
    by (rule sorted_sort_key)
  then show ?thesis
    by (simp add: desc_def sorted_map)
qed

lemma mset_desc: "mset (desc col rows) = mset rows"
  by (simp add: desc_def)

lemma mset_asc: "mset (asc col rows) = mset rows"
  by (simp add: asc_def)

lemma asc_sorted: "sorted (map col (asc col rows))"
  by (simp add: asc_def)

subsection \<open>The due query on a threshold that is a number\<close>

lemma get_items_for_review_threshold:
  assumes "storageError h = None"
    and "dueBefore = None \<and> threshold = dateNow h 0 div 1000
         \<or> (\<exists>d ms. dueBefore = Some d \<and> d \<noteq> [] \<and> dateParse h d = Some ms
                    \<and> threshold = ms div 1000)"
  shows "get_items_for_review h uid rsArg dueBefore db
         = Items (asc nextReview (filter (\<lambda>r. userId r = uid \<and> nextReview r \<le> threshold
              \<and> (case rsArg of None \<Rightarrow> True | Some s \<Rightarrow> recallStrength r = s)) db))"
proof -
  have b: "bindNumber h (Some threshold) = Inr (Some threshold)"
    by (simp add: bindNumber_def)
  from assms(2) have
    "(case dueBefore of
        Some d \<Rightarrow> if d \<noteq> [] then map_option (\<lambda>ms. ms div 1000) (dateParse h d)
                  else Some (dateNow h 0 div 1000)
      | None \<Rightarrow> Some (dateNow h 0 div 1000)) = Some threshold"
    by auto
  then show ?thesis
    unfolding get_items_for_review_def Let_def
    by (simp add: b db_select_def assms(1) strength_condition_step lte_def)
qed

subsection \<open>Reads and writes stay with the caller's rows\<close>

lemma db_select_own:
  "db_select h ((\<lambda>r. userId r = uid) # cs) ord (ownRows uid db)
   = db_select h ((\<lambda>r. userId r = uid) # cs) ord db"
  by (cases "storageError h") (simp_all add: db_select_def ownRows_def cong: conj_cong)

lemma search_reads_own:
  "search_study_items h uid contentArg tagsArg typeArg levelArg (ownRows uid db)
   = search_study_items h uid contentArg tagsArg typeArg levelArg db"
  unfolding search_study_items_def Let_def append_Cons append_Nil db_select_own ..

lemma review_reads_own:
  "get_items_for_review h uid rsArg dueBefore (ownRows uid db)
   = get_items_for_review h uid rsArg dueBefore db"
  unfolding get_items_for_review_def Let_def append_Cons append_Nil db_select_own ..

lemma types_reads_own: "get_study_types h uid (ownRows uid db) = get_study_types h uid db"
  unfolding get_study_types_def db_select_own ..

lemma stats_reads_own: "get_learning_stats h uid (ownRows uid db) = get_learning_stats h uid db"
  unfolding get_learning_stats_def db_select_own ..

lemma update_snd:
  "\<exists>f. (\<forall>r. userId (f r) = userId r) \<and> (\<forall>r. userId r \<noteq> uid \<longrightarrow> f r = r)
       \<and> snd (update_study_performance h i uid rs db) = map f db"
proof (cases "storageError h")
  case None
  let ?f = "\<lambda>r. if itemId r = i \<and> userId r = uid
                  then r\<lparr>recallStrength := rs, lastReviewed := Some (dateNow h 1 div 1000),
                          nextReview :=
                            calculateNextReview (dateNow h 0) rs DEFAULT_SETTINGS div 1000,
                          updatedAt := dateNow h 2 div 1000\<rparr>
                  else r"
  have m: "snd (update_study_performance h i uid rs db) = map ?f db"
    using None by (simp add: update_study_performance_def db_update_def)
  have u: "\<forall>r. userId (?f r) = userId r" by simp
  have o: "\<forall>r. userId r \<noteq> uid \<longrightarrow> ?f r = r" by simp
  from u o m show ?thesis by (intro exI [of _ ?f] conjI)
next
  case (Some e)
  then have "snd (update_study_performance h i uid rs db) = map (\<lambda>r. r) db"
    by (simp add: update_study_performance_def db_update_def)
  then show ?thesis by (intro exI [of _ "\<lambda>r. r"]) simp
qed

lemma filter_others_map:
  "(\<And>r. userId (f r) = userId r) \<Longrightarrow> (\<And>r. userId r \<noteq> uid \<Longrightarrow> f r = r)
   \<Longrightarrow> filter (\<lambda>r. userId r \<noteq> uid) (map f db) = filter (\<lambda>r. userId r \<noteq> uid) db"
  by (induction db) auto

lemma update_keeps_others:
  "otherRows uid (snd (update_study_performance h i uid rs db)) = otherRows uid db"
proof -
  obtain f where "\<forall>r. userId (f r) = userId r" and "\<forall>r. userId r \<noteq> uid \<longrightarrow> f r = r"
    and "snd (update_study_performance h i uid rs db) = map f db"
    using update_snd by blast
  then show ?thesis
    by (simp add: otherRows_def filter_others_map)
qed

lemma update_length: "length (snd (update_study_performance h i uid rs db)) = length db"
  using update_snd [of uid h i rs db] by auto

lemma update_keeps_position:
  "k < length db \<Longrightarrow> userId (db ! k) \<noteq> uid
   \<Longrightarrow> snd (update_study_performance h i uid rs db) ! k = db ! k"
  using update_snd [of uid h i rs db] by auto

lemma update_reply_own:
  "fst (update_study_performance h i uid rs (ownRows uid db))
   = fst (update_study_performance h i uid rs db)"
  by (simp add: update_study_performance_def db_update_def split: option.splits)

lemma update_own_rows:
  "snd (update_study_performance h i uid rs (ownRows uid db))
   = ownRows uid (snd (update_study_performance h i uid rs db))"
  by (induction db)
     (simp_all add: update_study_performance_def db_update_def ownRows_def split: option.splits)

lemma create_keeps_others:
  "otherRows uid (snd (create_study_item h uid ty c l tagsArg nts db)) = otherRows uid db"
  by (simp add: create_study_item_def Let_def db_insert_def insertValues_def otherRows_def
      split: option.splits)

lemma create_reply_own:
  "uuid h \<notin> set (map itemId db)
   \<Longrightarrow> fst (create_study_item h uid ty c l tagsArg nts (ownRows uid db))
       = fst (create_study_item h uid ty c l tagsArg nts db)"
  by (auto simp: create_study_item_def Let_def db_insert_def insertValues_def ownRows_def
      split: option.splits)

section \<open>Properties of the tools\<close>

subsection \<open>Creation\<close>

text \<open>
  Claim C5. Whatever type, content, level, tags and notes are supplied, a call of
  \<open>create_study_item\<close> either appends exactly one row, whose recall strength is weak and
  whose next review is the second of the call's clock reading plus 3600 seconds, or it
  replies with an error and leaves the table as it was. The arguments offer no way to
  choose the recall strength or the next review. When the storage raises nothing and the
  generated identifier is fresh, the row is created.
\<close>

theorem create_study_item_schedule:
  "((\<exists>row. create_study_item h uid ty c l tagsArg nts db = (Created (uuid h), db @ [row])
        \<and> recallStrength row = Weak
        \<and> nextReview row = dateNow h 0 div 1000 + 3600
        \<and> itemId row = uuid h \<and> userId row = uid \<and> type row = ty \<and> content row = c
        \<and> level row = l \<and> tags row = Some (case tagsArg of None \<Rightarrow> [] | Some t \<Rightarrow> t)
        \<and> itemNotes row = nts \<and> lastReviewed row = None
        \<and> createdAt row = unixepoch h \<and> updatedAt row = unixepoch h)
     \<or> (\<exists>e. create_study_item h uid ty c l tagsArg nts db = (Failure e, db)))
   \<and> (storageError h = None \<and> uuid h \<notin> set (map itemId db)
        \<longrightarrow> fst (create_study_item h uid ty c l tagsArg nts db) = Created (uuid h))"
proof -
  have nxt: "calculateNextReview (dateNow h 0) Weak DEFAULT_SETTINGS div 1000
               = dateNow h 0 div 1000 + 3600"
    by (simp add: nextReview_seconds)
  show ?thesis
    unfolding create_study_item_def Let_def nxt
    by (simp add: db_insert_def insertValues_def split: option.splits)
qed

theorem create_study_item_schedule_witness:
  "storageError demoHost = None \<and> uuid demoHost \<notin> set (map itemId demoDb)
   \<and> create_study_item demoHost ''alice'' ''vocab'' ''Die Maus'' C1 None (Some ''n'') demoDb
       = (Created ''id-5'',
          demoDb @ [\<lparr>itemId = ''id-5'', userId = ''alice'', type = ''vocab'',
                     content = ''Die Maus'', level = C1, tags = Some [],
                     recallStrength = Weak, lastReviewed = None, nextReview = 8600,
                     itemNotes = Some ''n'', createdAt = 5000, updatedAt = 5000\<rparr>])"
  using create_study_item_schedule
    [of demoHost "''alice''" "''vocab''" "''Die Maus''" C1 None "Some ''n''" demoDb]
  by (simp add: create_study_item_def Let_def db_insert_def insertValues_def
      calculateNextReview_def DEFAULT_SETTINGS_def demo_defs)

subsection \<open>Recording a review\<close>

text \<open>
  Claim C6. When the storage raises nothing, \<open>update_study_performance\<close> with strength
  strong turns every row that matches the identifier and the user into the same row with
  recall strength strong, next review 72 hours after the second of the clock reading taken
  by the scheduler, last review the second of the clock reading taken for it, and
  \<^verbatim>\<open>updatedAt\<close> the second of the clock reading taken for it; identifier, user, type,
  content, level, tags, notes and \<^verbatim>\<open>createdAt\<close> stay. The three readings are those of one
  call; when they fall in one second, that second is the update time of the claim.
\<close>

theorem update_study_performance_strong_row:
  assumes "storageError h = None" and "k < length db"
    and "itemId (db ! k) = i" and "userId (db ! k) = uid"
  shows "\<exists>db'. update_study_performance h i uid Strong db = (Success, db')
           \<and> length db' = length db
           \<and> nextReview (db' ! k) = dateNow h 0 div 1000 + 72 * 3600
           \<and> lastReviewed (db' ! k) = Some (dateNow h 1 div 1000)
           \<and> updatedAt (db' ! k) = dateNow h 2 div 1000
           \<and> recallStrength (db' ! k) = Strong
           \<and> itemId (db' ! k) = itemId (db ! k) \<and> userId (db' ! k) = userId (db ! k)
           \<and> type (db' ! k) = type (db ! k) \<and> content (db' ! k) = content (db ! k)
           \<and> level (db' ! k) = level (db ! k) \<and> tags (db' ! k) = tags (db ! k)
           \<and> itemNotes (db' ! k) = itemNotes (db ! k)
           \<and> createdAt (db' ! k) = createdAt (db ! k)"
proof -
  have nxt: "calculateNextReview (dateNow h 0) Strong DEFAULT_SETTINGS div 1000
               = dateNow h 0 div 1000 + 72 * 3600"
    by (simp add: nextReview_seconds)
  show ?thesis
    unfolding update_study_performance_def Let_def nxt
    using assms by (simp add: db_update_def)
qed

theorem update_study_performance_strong_row_witness:
  "storageError demoHost = None \<and> 0 < length demoDb
   \<and> itemId (demoDb ! 0) = ''id-1'' \<and> userId (demoDb ! 0) = ''alice''
   \<and> update_study_performance demoHost ''id-1'' ''alice'' Strong demoDb
       = (Success,
          [itemA1\<lparr>recallStrength := Strong, lastReviewed := Some 5000,
                  nextReview := 264200, updatedAt := 5000\<rparr>,
           itemA2, itemA3, itemB1])"
proof -
  have hyps: "storageError demoHost = None" "0 < length demoDb"
    "itemId (demoDb ! 0) = ''id-1''" "userId (demoDb ! 0) = ''alice''"
    by (simp_all add: demo_defs)
  from update_study_performance_strong_row [OF hyps] hyps show ?thesis
    by (simp add: update_study_performance_def Let_def db_update_def calculateNextReview_def
        DEFAULT_SETTINGS_def demo_defs)
qed

text \<open>
  Claim C7. When the storage raises nothing, \<open>update_study_performance\<close> replies
  \<^verbatim>\<open>{success: true}\<close>, whether or not a row matches; when none matches, the table is
  unchanged, and the reply is the same as for a matched row.
\<close>

theorem update_study_performance_reports_success:
  assumes "storageError h = None"
  shows "fst (update_study_performance h i uid rs db) = Success
         \<and> ((\<forall>r \<in> set db. \<not> (itemId r = i \<and> userId r = uid))
              \<longrightarrow> snd (update_study_performance h i uid rs db) = db)"
  using assms
  by (auto simp: update_study_performance_def db_update_def intro!: map_idI)

theorem update_study_performance_reports_success_witness:
  "storageError demoHost = None \<and> ''id-9'' \<notin> set (map itemId demoDb)
   \<and> update_study_performance demoHost ''id-9'' ''alice'' Medium demoDb = (Success, demoDb)"
proof -
  have hyp: "storageError demoHost = None"
    by (simp add: demo_defs)
  have none: "\<forall>r \<in> set demoDb. \<not> (itemId r = ''id-9'' \<and> userId r = ''alice'')"
    by (simp add: demo_defs)
  have absent: "''id-9'' \<notin> set (map itemId demoDb)"
    by (simp add: demo_defs)
  from update_study_performance_reports_success [OF hyp, of "''id-9''" "''alice''" Medium demoDb]
    none hyp absent
  show ?thesis
    by (simp add: prod_eq_iff)
qed

subsection \<open>Isolation between users\<close>

text \<open>
  Claim C2. \<open>update_study_performance\<close> for user \<open>uid\<close> leaves every row of another user
  as it is and in its place, its reply is the reply it gives on the caller's rows alone,
  and what it does to the caller's rows does not depend on the other rows.
  \<open>create_study_item\<close> leaves the rows of other users as they are, and with a fresh
  identifier its reply is the one it gives on the caller's rows alone. The four reading
  tools return what they return on the caller's rows alone.
\<close>

theorem cross_user_isolation:
  "otherRows uid (snd (update_study_performance h i uid rs db)) = otherRows uid db
   \<and> length (snd (update_study_performance h i uid rs db)) = length db
   \<and> (\<forall>k < length db. userId (db ! k) \<noteq> uid
         \<longrightarrow> snd (update_study_performance h i uid rs db) ! k = db ! k)
   \<and> fst (update_study_performance h i uid rs db)
       = fst (update_study_performance h i uid rs (ownRows uid db))
   \<and> ownRows uid (snd (update_study_performance h i uid rs db))
       = snd (update_study_performance h i uid rs (ownRows uid db))
   \<and> otherRows uid (snd (create_study_item h uid ty c l newTags nts db)) = otherRows uid db
   \<and> (uuid h \<notin> set (map itemId db)
        \<longrightarrow> fst (create_study_item h uid ty c l newTags nts db)
            = fst (create_study_item h uid ty c l newTags nts (ownRows uid db)))
   \<and> search_study_items h uid contentArg tagsArg typeArg levelArg db
       = search_study_items h uid contentArg tagsArg typeArg levelArg (ownRows uid db)
   \<and> get_items_for_review h uid rsArg dueBefore db
       = get_items_for_review h uid rsArg dueBefore (ownRows uid db)
   \<and> get_study_types h uid db = get_study_types h uid (ownRows uid db)
   \<and> get_learning_stats h uid db = get_learning_stats h uid (ownRows uid db)"
  by (intro conjI allI impI)
     (simp_all add: update_keeps_others update_length update_keeps_position update_reply_own
        update_own_rows create_keeps_others create_reply_own search_reads_own review_reads_own
        types_reads_own stats_reads_own)

theorem cross_user_isolation_witness:
  "3 < length demoDb \<and> userId (demoDb ! 3) \<noteq> ''alice'' \<and> itemId (demoDb ! 3) = ''id-4''
   \<and> snd (update_study_performance demoHost ''id-4'' ''alice'' Strong demoDb) ! 3 = itemB1
   \<and> otherRows ''alice'' (snd (update_study_performance demoHost ''id-4'' ''alice'' Strong demoDb))
       = [itemB1]
   \<and> uuid demoHost \<notin> set (map itemId demoDb)
   \<and> fst (create_study_item demoHost ''alice'' ''vocab'' ''Die Maus'' C1 None None
             (ownRows ''alice'' demoDb)) = Created ''id-5''
   \<and> get_study_types demoHost ''alice'' (ownRows ''alice'' demoDb) = Types [''grammar'', ''vocab'']"
  using cross_user_isolation
    [where uid = "''alice''" and h = demoHost and i = "''id-4''" and rs = Strong and db = demoDb
       and ty = "''vocab''" and c = "''Die Maus''" and l = C1 and newTags = None and nts = None]
  by (simp add: update_study_performance_def create_study_item_def get_study_types_def Let_def
      db_update_def db_insert_def db_select_def insertValues_def otherRows_def ownRows_def
      demo_defs)

subsection \<open>The due query\<close>

text \<open>
  Claim C3. When the storage raises nothing and \<^verbatim>\<open>dueBefore\<close> is absent or a non-empty string
  that parses, \<open>get_items_for_review\<close> returns exactly the caller's rows whose next review
  is at or before the threshold and whose recall strength is the requested one if one is
  requested, in ascending order of next review. The threshold is the second of the clock
  reading without \<^verbatim>\<open>dueBefore\<close> and the second of the parsed date with it. A row at the
  threshold is returned, a row after it is not.
\<close>

theorem get_items_for_review_due_set:
  assumes "storageError h = None"
    and "dueBefore = None \<and> threshold = dateNow h 0 div 1000
         \<or> (\<exists>d ms. dueBefore = Some d \<and> d \<noteq> [] \<and> dateParse h d = Some ms
                    \<and> threshold = ms div 1000)"
  shows "\<exists>rows. get_items_for_review h uid rsArg dueBefore db = Items rows
     \<and> mset rows = mset (filter (\<lambda>r. userId r = uid \<and> nextReview r \<le> threshold
          \<and> (case rsArg of None \<Rightarrow> True | Some s \<Rightarrow> recallStrength r = s)) db)
     \<and> sorted (map nextReview rows)
     \<and> (\<forall>r \<in> set db. userId r = uid \<and> (rsArg = None \<or> rsArg = Some (recallStrength r))
           \<longrightarrow> (r \<in> set rows \<longleftrightarrow> nextReview r \<le> threshold))"
proof -
  let ?P = "\<lambda>r. userId r = uid \<and> nextReview r \<le> threshold
          \<and> (case rsArg of None \<Rightarrow> True | Some s \<Rightarrow> recallStrength r = s)"
  let ?rows = "asc nextReview (filter ?P db)"
  have eq: "get_items_for_review h uid rsArg dueBefore db = Items ?rows"
    using assms by (rule get_items_for_review_threshold)
  have ms: "mset ?rows = mset (filter ?P db)"
    by (rule mset_asc)
  have so: "sorted (map nextReview ?rows)"
    by (rule asc_sorted)
  have "set ?rows = {r \<in> set db. ?P r}"
    using mset_eq_setD [OF ms] by simp
  then have mem: "\<forall>r \<in> set db. userId r = uid \<and> (rsArg = None \<or> rsArg = Some (recallStrength r))
           \<longrightarrow> (r \<in> set ?rows \<longleftrightarrow> nextReview r \<le> threshold)"
    by (auto split: option.splits)
  from eq ms so mem show ?thesis
    by (intro exI [of _ ?rows] conjI)
qed

theorem get_items_for_review_due_set_witness:
  "storageError demoHost = None
   \<and> dateParse demoHost ''1970-01-01T01:23:20.000Z'' = Some 5000000
   \<and> get_items_for_review demoHost ''alice'' None (Some ''1970-01-01T01:23:20.000Z'') demoDb
       = Items [itemA3, itemA1]
   \<and> nextReview itemA3 = 4000 \<and> nextReview itemA1 = 5000 \<and> nextReview itemA2 = 5001
   \<and> get_items_for_review demoHost ''alice'' (Some Weak) None demoDb = Items [itemA1]"
proof -
  have hyp: "storageError demoHost = None"
    by (simp add: demo_defs)
  have due: "Some ''1970-01-01T01:23:20.000Z'' = None \<and> 5000 = dateNow demoHost 0 div 1000
         \<or> (\<exists>d ms. Some ''1970-01-01T01:23:20.000Z'' = Some d \<and> d \<noteq> []
                \<and> dateParse demoHost d = Some ms \<and> 5000 = ms div 1000)"
    by (simp add: demo_defs)
  from get_items_for_review_due_set [OF hyp due, of "''alice''" None demoDb] hyp
  show ?thesis
    by (simp add: get_items_for_review_def bindNumber_def lte_def db_select_def asc_def demo_defs)
qed

text \<open>
  Claim C4 says that every \<^verbatim>\<open>dueBefore\<close> that does not parse is answered with an error
  payload. The empty string does not parse, and the tool answers it with the due list of
  the current time.
\<close>

theorem get_items_for_review_unparseable_counterexample:
  "dateParse demoHost [] = None
   \<and> get_items_for_review demoHost ''alice'' None (Some []) demoDb = Items [itemA3, itemA1]"
  by (simp add: get_items_for_review_def bindNumber_def lte_def db_select_def asc_def demo_defs)

text \<open>
  Claim C4, amended. No call of \<open>get_items_for_review\<close> ends otherwise than with an item
  list or an error payload. An empty \<^verbatim>\<open>dueBefore\<close> is treated as an absent one. A non-empty
  \<^verbatim>\<open>dueBefore\<close> that does not parse raises nothing in the tool: the threshold is NaN, and
  the reply is an error payload if the driver refuses NaN or the storage raises, and the
  empty item list otherwise.
\<close>

theorem get_items_for_review_malformed_dueBefore:
  "((\<exists>rows. get_items_for_review h uid rsArg dueBefore db = Items rows)
      \<or> (\<exists>e. get_items_for_review h uid rsArg dueBefore db = Failure e))
   \<and> get_items_for_review h uid rsArg (Some []) db = get_items_for_review h uid rsArg None db
   \<and> (d \<noteq> [] \<and> dateParse h d = None \<longrightarrow>
        (bindNaN h \<noteq> None \<or> storageError h \<noteq> None
           \<longrightarrow> (\<exists>e. get_items_for_review h uid rsArg (Some d) db = Failure e))
        \<and> (bindNaN h = None \<and> storageError h = None
           \<longrightarrow> get_items_for_review h uid rsArg (Some d) db = Items []))"
proof (intro conjI impI)
  show "(\<exists>rows. get_items_for_review h uid rsArg dueBefore db = Items rows)
      \<or> (\<exists>e. get_items_for_review h uid rsArg dueBefore db = Failure e)"
    unfolding get_items_for_review_def Let_def
    by (simp add: db_select_def split: sum.splits option.splits)
next
  show "get_items_for_review h uid rsArg (Some []) db = get_items_for_review h uid rsArg None db"
    by (simp add: get_items_for_review_def)
next
  assume "d \<noteq> [] \<and> dateParse h d = None" and "bindNaN h \<noteq> None \<or> storageError h \<noteq> None"
  then show "\<exists>e. get_items_for_review h uid rsArg (Some d) db = Failure e"
    unfolding get_items_for_review_def Let_def
    by (auto simp: bindNumber_def db_select_def split: option.splits)
next
  assume "d \<noteq> [] \<and> dateParse h d = None" and "bindNaN h = None \<and> storageError h = None"
  then show "get_items_for_review h uid rsArg (Some d) db = Items []"
    unfolding get_items_for_review_def Let_def
    by (simp add: bindNumber_def db_select_def lte_def asc_def)
qed

theorem get_items_for_review_malformed_dueBefore_witness:
  "''tomorrow'' \<noteq> [] \<and> dateParse demoHost ''tomorrow'' = None
   \<and> bindNaN demoHost = None \<and> storageError demoHost = None
   \<and> get_items_for_review demoHost ''alice'' None (Some ''tomorrow'') demoDb = Items []
   \<and> bindNaN (demoHost\<lparr>bindNaN := Some ''NaN''\<rparr>) \<noteq> None
   \<and> get_items_for_review (demoHost\<lparr>bindNaN := Some ''NaN''\<rparr>) ''alice'' None
        (Some ''tomorrow'') demoDb = Failure ''NaN''"
  using get_items_for_review_malformed_dueBefore
      [of demoHost "''alice''" None "Some ''tomorrow''" demoDb "''tomorrow''"]
    get_items_for_review_malformed_dueBefore
      [of "demoHost\<lparr>bindNaN := Some ''NaN''\<rparr>" "''alice''" None "Some ''tomorrow''" demoDb
          "''tomorrow''"]
  by (simp add: get_items_for_review_def bindNumber_def lte_def db_select_def asc_def demo_defs)

subsection \<open>The search\<close>

text \<open>
  Claim C8 says that a supplied type is an exact-match filter. An empty type string is
  supplied, no row of the table has the empty type, and the search returns all rows of
  the caller.
\<close>

theorem search_study_items_empty_type_counterexample:
  "type itemA1 \<noteq> [] \<and> type itemA2 \<noteq> [] \<and> type itemA3 \<noteq> []
   \<and> search_study_items demoHost ''alice'' None None (Some []) None demoDb
       = Items [itemA3, itemA2, itemA1]"
  by (simp add: search_study_items_def db_select_def desc_def demo_defs)

text \<open>
  Claim C8, amended. When the storage raises nothing, \<open>search_study_items\<close> returns
  exactly the caller's rows that pass four filters, in descending order of \<^verbatim>\<open>updatedAt\<close>:
  the type equals a supplied non-empty type (an empty type string filters nothing, like
  an absent one); the level equals a supplied level; the content contains a supplied
  content string, both put in lower case by the host's \<^verbatim>\<open>toLowerCase\<close>; the stored tags
  share at least one tag with a supplied non-empty tag list, where a row without stored
  tags shares none. The host's \<^verbatim>\<open>toLowerCase\<close> is any function that keeps the empty string
  empty.
\<close>

theorem search_study_items_result:
  assumes "storageError h = None" and "toLowerCase h [] = []"
  shows "\<exists>rows. search_study_items h uid contentArg tagsArg typeArg levelArg db = Items rows
     \<and> mset rows = mset (filter (\<lambda>r. userId r = uid
          \<and> (case typeArg of None \<Rightarrow> True | Some ty \<Rightarrow> ty = [] \<or> type r = ty)
          \<and> (case levelArg of None \<Rightarrow> True | Some l \<Rightarrow> level r = l)
          \<and> (case contentArg of None \<Rightarrow> True
              | Some c \<Rightarrow> sublist (toLowerCase h c) (toLowerCase h (content r)))
          \<and> (case tagsArg of None \<Rightarrow> True
              | Some tgs \<Rightarrow> tgs = [] \<or> (case tags r of None \<Rightarrow> False
                                            | Some its \<Rightarrow> set tgs \<inter> set its \<noteq> {}))) db)
     \<and> sorted_wrt (\<lambda>a b. updatedAt b \<le> updatedAt a) rows"
proof -
  let ?S = "\<lambda>r. userId r = uid
      \<and> (case typeArg of None \<Rightarrow> True | Some ty \<Rightarrow> ty = [] \<or> type r = ty)
      \<and> (case levelArg of None \<Rightarrow> True | Some l \<Rightarrow> level r = l)"
  let ?C = "\<lambda>r. case contentArg of None \<Rightarrow> True
                 | Some c \<Rightarrow> sublist (toLowerCase h c) (toLowerCase h (content r))"
  let ?T = "\<lambda>r. case tagsArg of None \<Rightarrow> True
                 | Some tgs \<Rightarrow> tgs = [] \<or> (case tags r of None \<Rightarrow> False
                                               | Some its \<Rightarrow> set tgs \<inter> set its \<noteq> {})"
  let ?rows = "filter ?T (filter ?C (desc updatedAt (filter ?S db)))"
  have eq: "search_study_items h uid contentArg tagsArg typeArg levelArg db = Items ?rows"
    unfolding search_study_items_def Let_def db_select_def storage_conditions_step
      content_filter_step [OF assms(2)] tags_filter_step
    using assms(1) by simp
  have ms: "mset ?rows = mset (filter (\<lambda>r. ?S r \<and> ?C r \<and> ?T r) db)"
    by (rule multiset_eqI) (simp add: mset_desc)
  have "sorted_wrt (\<lambda>a b. updatedAt b \<le> updatedAt a) (desc updatedAt (filter ?S db))"
    by (rule desc_sorted)
  then have so: "sorted_wrt (\<lambda>a b. updatedAt b \<le> updatedAt a) ?rows"
    by (intro sorted_wrt_filter)
  from eq ms so show ?thesis
    by (intro exI [of _ ?rows]) (simp only: conj_assoc simp_thms)
qed

theorem search_study_items_result_witness:
  "storageError demoHost = None \<and> toLowerCase demoHost [] = []
   \<and> tags itemA1 = Some [''x'', ''y''] \<and> tags itemA2 = Some [''y'', ''z'']
   \<and> search_study_items demoHost ''alice'' None (Some [''x'']) None None demoDb = Items [itemA1]
   \<and> search_study_items demoHost ''alice'' (Some ''hund'') None (Some ''vocab'') (Some A2) demoDb
       = Items [itemA3]
   \<and> search_study_items demoHost ''alice'' (Some (CHR 0xC3 # CHR 0xA4 # ''pfel'')) None None None
        (demoDb @ [itemA4])
       = Items [itemA4]"
proof -
  have hyps: "storageError demoHost = None" "toLowerCase demoHost [] = []"
    by (simp_all add: demo_defs)
  from search_study_items_result [OF hyps, of "''alice''" None "Some [''x'']" None None demoDb]
    hyps
  show ?thesis
    by (simp add: search_study_items_def db_select_def desc_def someTagMatches_def
        char_of_def bit_Suc_0_iff demo_defs itemA4_def)
qed

text \<open>
  Claim C10. For a row whose stored tags are NULL and a non-empty list of tags, the tag
  filter of the search is false, and the search, when the storage raises nothing, returns
  an item list in which no row has NULL tags: such rows are left out, and they cause no
  error.
\<close>

theorem search_null_tags_excluded:
  assumes "storageError h = None" and "tgs \<noteq> []"
  shows "(tags item = None \<longrightarrow> \<not> someTagMatches tgs item)
     \<and> (\<exists>rows. search_study_items h uid contentArg (Some tgs) typeArg levelArg db = Items rows
          \<and> (\<forall>r \<in> set rows. tags r \<noteq> None))"
proof
  show "tags item = None \<longrightarrow> \<not> someTagMatches tgs item"
    by (simp add: someTagMatches_inter)
next
  have "\<exists>results. db_select h
          ([\<lambda>r. userId r = uid]
           @ (case typeArg of Some ty \<Rightarrow> if ty \<noteq> [] then [\<lambda>r. type r = ty] else [] | None \<Rightarrow> [])
           @ (case levelArg of Some l \<Rightarrow> [\<lambda>r. level r = l] | None \<Rightarrow> []))
          (desc updatedAt) db = Inr results"
    using assms(1) by (simp add: db_select_def)
  then obtain results where sel: "db_select h
          ([\<lambda>r. userId r = uid]
           @ (case typeArg of Some ty \<Rightarrow> if ty \<noteq> [] then [\<lambda>r. type r = ty] else [] | None \<Rightarrow> [])
           @ (case levelArg of Some l \<Rightarrow> [\<lambda>r. level r = l] | None \<Rightarrow> []))
          (desc updatedAt) db = Inr results" ..
  show "\<exists>rows. search_study_items h uid contentArg (Some tgs) typeArg levelArg db = Items rows
          \<and> (\<forall>r \<in> set rows. tags r \<noteq> None)"
    unfolding search_study_items_def Let_def sel
    using assms(2) by (auto simp: someTagMatches_inter split: option.splits)
qed

theorem search_null_tags_excluded_witness:
  "storageError demoHost = None \<and> [''y''] \<noteq> [] \<and> tags itemA3 = None
   \<and> \<not> someTagMatches [''y''] itemA3
   \<and> search_study_items demoHost ''alice'' None (Some [''y'']) None None demoDb
       = Items [itemA2, itemA1]"
proof -
  have hyps: "storageError demoHost = None" "[''y''] \<noteq> []"
    by (simp_all add: demo_defs)
  from search_null_tags_excluded [OF hyps, of itemA3 "''alice''" None None None demoDb] hyps
  show ?thesis
    by (simp add: search_study_items_def db_select_def desc_def someTagMatches_def demo_defs)
qed

end
